theory Spec2Isabelle
  imports Complex_Main
begin

section \<open>Python values and text\<close>

text \<open>
  The raw answers and raw guess results of the oracle are dynamically typed Python values.
  The shapes the normalisers of \<^verbatim>\<open>evaluate_20Q.py\<close> distinguish are booleans, text and
  dictionaries; \<open>None\<close>, integers and lists stand for "any other shape". Values are finite
  trees: a dictionary that contains itself, and the interpreter's recursion limit, are
  outside this model, and so are floating-point numbers. A dictionary is an association
  list read through \<open>map_of\<close>.

  Text is a list of 8-bit characters and is read as ASCII: \<open>str.strip\<close>, \<open>str.lower\<close>
  and \<open>str.casefold\<close> are modelled on the ASCII range, where lowering and case folding
  coincide, and leave every other character alone.
\<close>

datatype pyval =
    PNone
  | PBool bool
  | PInt int
  | PStr string
  | PList "pyval list"
  | PDict "(pyval \<times> pyval) list"

text \<open>Python's \<open>bool(v)\<close>.\<close>

fun truthy :: "pyval \<Rightarrow> bool" where
  "truthy PNone = False"
| "truthy (PBool b) = b"
| "truthy (PInt i) = (i \<noteq> 0)"
| "truthy (PStr s) = (s \<noteq> [])"
| "truthy (PList xs) = (xs \<noteq> [])"
| "truthy (PDict d) = (d \<noteq> [])"

text \<open>
  \<open>c.isspace()\<close> on ASCII: tab, line feed, vertical tab, form feed, carriage return,
  the four separators \<open>0x1C\<close> to \<open>0x1F\<close>, and the space.
\<close>

definition is_space :: "char \<Rightarrow> bool" where
  "is_space c =
     (let n = (of_char c :: nat) in (9 \<le> n \<and> n \<le> 13) \<or> (28 \<le> n \<and> n \<le> 32))"

definition strip :: "string \<Rightarrow> string" where
  "strip s = rev (dropWhile is_space (rev (dropWhile is_space s)))"

definition lower_char :: "char \<Rightarrow> char" where
  "lower_char c =
     (case map_of (zip ''ABCDEFGHIJKLMNOPQRSTUVWXYZ'' ''abcdefghijklmnopqrstuvwxyz'') c of
        Some l \<Rightarrow> l
      | None \<Rightarrow> c)"

definition lower :: "string \<Rightarrow> string" where
  "lower s = map lower_char s"

definition casefold :: "string \<Rightarrow> string" where
  "casefold s = map lower_char s"

section \<open>The response normaliser\<close>

text \<open>
  \<open>for key in keys: if key in d: return ... d[key] ...\<close>: the value under the first key
  of the priority list that the dictionary holds, if any.
\<close>

fun first_present :: "(pyval \<times> pyval) list \<Rightarrow> string list \<Rightarrow> pyval option" where
  "first_present d [] = None"
| "first_present d (key # keys) =
     (case map_of d (PStr key) of
        Some v \<Rightarrow> Some v
      | None \<Rightarrow> first_present d keys)"

lemma map_of_size: "map_of d k = Some v \<Longrightarrow> size v < size (PDict d)"
  by (induction d) (auto split: if_splits)

lemma first_present_size: "first_present d keys = Some v \<Longrightarrow> size v < size (PDict d)"
  by (induction keys) (auto split: option.splits dest: map_of_size)

definition answer_keys :: "string list" where
  "answer_keys = [''answer'', ''response'', ''label'', ''result'', ''status'']"

function (sequential) normalize_answer :: "pyval \<Rightarrow> string" where
  "normalize_answer (PBool b) = (if b then ''yes'' else ''no'')"
| "normalize_answer (PStr a) =
     (let s = lower (strip a) in
      if s \<in> set [''yes'', ''y'', ''true'', ''1''] then ''yes''
      else if s \<in> set [''no'', ''n'', ''false'', ''0''] then ''no''
      else if s \<in> set [''maybe'', ''unsure'', ''unknown'', ''not sure'', ''idk''] then ''maybe''
      else ''maybe'')"
| "normalize_answer (PDict d) =
     (case first_present d answer_keys of
        Some v \<Rightarrow> normalize_answer v
      | None \<Rightarrow> ''maybe'')"
| "normalize_answer _ = ''maybe''"
  by pat_completeness auto
termination
  by (relation "measure size") (auto dest: first_present_size)

definition guess_keys :: "string list" where
  "guess_keys = [''correct'', ''is_correct'', ''match'', ''result'']"

fun parse_guess_result :: "pyval \<Rightarrow> bool" where
  "parse_guess_result (PBool b) = b"
| "parse_guess_result (PStr r) =
     (let s = lower (strip r) in
      s \<in> set [''yes'', ''correct'', ''true'', ''right'', ''1'', ''match''])"
| "parse_guess_result (PDict d) =
     (case first_present d guess_keys of
        Some v \<Rightarrow> truthy v
      | None \<Rightarrow> False)"
| "parse_guess_result _ = False"

section \<open>The collaborators\<close>

text \<open>
  The guessing agent and the oracle are external, stateful and opaque. Everything they can
  read or change (the oracle's hidden target, the agent's memory, a random generator) is the
  world \<open>'w\<close>; each operation takes the world and returns its result with the new world.
  Constructing \<open>ValidatorModel()\<close> changes the world too (it draws a target). The
  collaborators are assumed to return: an exception raised inside one of them is not modelled.
  The lists an observation refers to are read at the time of the call, and the agent does not
  mutate them.
\<close>

datatype py_error = AttributeError | ZeroDivisionError

definition ASK :: string where
  "ASK = ''ask''"

definition GUESS :: string where
  "GUESS = ''guess''"

record obs =
  turnType :: string
  questions :: "string list"
  answers :: "string list"
  question_guesses :: "string list"
  answer_guesses_list :: "string list"

record 'w collab =
  ValidatorModel :: "'w \<Rightarrow> 'w"
  vm_getattr :: "'w \<Rightarrow> string \<Rightarrow> pyval option"
  vm_call :: "'w \<Rightarrow> string \<Rightarrow> pyval option"
  guesser_agent :: "obs \<Rightarrow> 'w \<Rightarrow> pyval \<times> 'w"
  validate_question :: "string \<Rightarrow> 'w \<Rightarrow> pyval \<times> 'w"
  validate_guess :: "string \<Rightarrow> 'w \<Rightarrow> pyval \<times> 'w"

text \<open>
  \<open>vm_getattr c w a\<close> is \<open>getattr(vm, a)\<close>, \<open>None\<close> when \<open>hasattr(vm, a)\<close> is false;
  \<open>vm_call c w m\<close> is \<open>getattr(vm, m)()\<close>, \<open>None\<close> when the call raises. Both only read.
\<close>

fun probe_attrs :: "(string \<Rightarrow> pyval option) \<Rightarrow> string list \<Rightarrow> pyval option" where
  "probe_attrs ga [] = None"
| "probe_attrs ga (attr # rest) =
     (case ga attr of
        Some v \<Rightarrow> Some v
      | None \<Rightarrow> probe_attrs ga rest)"

fun probe_meths ::
  "(string \<Rightarrow> pyval option) \<Rightarrow> (string \<Rightarrow> pyval option) \<Rightarrow> string list \<Rightarrow> pyval option" where
  "probe_meths ga call [] = None"
| "probe_meths ga call (meth # rest) =
     (if ga meth \<noteq> None then
        (case call meth of
           Some v \<Rightarrow> Some v
         | None \<Rightarrow> probe_meths ga call rest)
      else probe_meths ga call rest)"

definition maybe_get_target_word :: "'w collab \<Rightarrow> 'w \<Rightarrow> pyval" where
  "maybe_get_target_word c w =
     (case probe_attrs (vm_getattr c w)
             [''target'', ''word'', ''answer'', ''label'', ''solution'', ''keyword'', ''gold'',
              ''ground_truth''] of
        Some v \<Rightarrow> v
      | None \<Rightarrow>
          (case probe_meths (vm_getattr c w) (vm_call c w)
                  [''get_target'', ''get_word'', ''get_answer''] of
             Some v \<Rightarrow> v
           | None \<Rightarrow> PNone))"

section \<open>One game\<close>

text \<open>
  The state of \<open>run_single_game\<close>: its four local collections and the world. \<open>calls\<close> is
  a trace of the collaborator calls made so far, in order, each with its argument and its raw
  result. The source keeps no such trace; nothing in the model reads it, and it is there so
  that statements about which calls are made, and with what, can be written down.
\<close>

datatype event =
    AgentCall obs pyval
  | QuestionCall string pyval
  | GuessCall string pyval

record 'w game =
  game_questions :: "string list"
  game_answers :: "string list"
  game_guesses :: "string list"
  past_guesses_norm :: "string set"
  world :: "'w"
  calls :: "event list"

record game_record =
  won :: bool
  final_guess :: string
  rounds_used :: int
  target :: pyval

definition norm :: "string \<Rightarrow> string" where
  "norm s = strip (casefold s)"

definition make_obs :: "string \<Rightarrow> 'w game \<Rightarrow> obs" where
  "make_obs tt g =
     \<lparr>turnType = tt, questions = game_questions g, answers = game_answers g,
      question_guesses = game_guesses g, answer_guesses_list = game_answers g\<rparr>"

definition call_agent :: "'w collab \<Rightarrow> obs \<Rightarrow> 'w game \<Rightarrow> pyval \<times> 'w game" where
  "call_agent c ob g =
     (let (r, w') = guesser_agent c ob (world g)
      in (r, g\<lparr>world := w', calls := calls g @ [AgentCall ob r]\<rparr>))"

definition call_validate_question :: "'w collab \<Rightarrow> string \<Rightarrow> 'w game \<Rightarrow> pyval \<times> 'w game" where
  "call_validate_question c q g =
     (let (r, w') = validate_question c q (world g)
      in (r, g\<lparr>world := w', calls := calls g @ [QuestionCall q r]\<rparr>))"

definition call_validate_guess :: "'w collab \<Rightarrow> string \<Rightarrow> 'w game \<Rightarrow> pyval \<times> 'w game" where
  "call_validate_guess c x g =
     (let (r, w') = validate_guess c x (world g)
      in (r, g\<lparr>world := w', calls := calls g @ [GuessCall x r]\<rparr>))"

text \<open>
  \<open>(guesser_agent(obs) or "").strip()\<close>: a falsy response becomes the empty text; a truthy
  response that is not text has no \<open>strip\<close>, and the attribute lookup raises.
\<close>

definition agent_text :: "pyval \<Rightarrow> py_error + string" where
  "agent_text r =
     (case (if truthy r then r else PStr []) of
        PStr s \<Rightarrow> Inr (strip s)
      | _ \<Rightarrow> Inl AttributeError)"

definition fallback_question :: string where
  "fallback_question = ''Is it related to a well-known person?''"

text \<open>\<open>if not question: question = "Is it related to a well-known person?"\<close>\<close>

definition question_or_fallback :: "string \<Rightarrow> string" where
  "question_or_fallback t = (if t = [] then fallback_question else t)"

text \<open>\<open>if not guess: guess = "unknown"\<close>, and \<open>... or "unknown"\<close> in the retry loop.\<close>

definition guess_or_unknown :: "string \<Rightarrow> string" where
  "guess_or_unknown t = (if t = [] then ''unknown'' else t)"

text \<open>The question the ASK turn sends to the oracle, from the agent's response: lines 127 to 130.\<close>

definition next_question :: "pyval \<Rightarrow> py_error + string" where
  "next_question r =
     (case agent_text r of
        Inl e \<Rightarrow> Inl e
      | Inr t \<Rightarrow> Inr (question_or_fallback t))"

text \<open>The guess read from a response of the agent: lines 149 to 151, and line 154.\<close>

definition next_guess :: "pyval \<Rightarrow> py_error + string" where
  "next_guess r =
     (case agent_text r of
        Inl e \<Rightarrow> Inl e
      | Inr t \<Rightarrow> Inr (guess_or_unknown t))"

text \<open>
  The retry loop
  \<^verbatim>\<open>while _norm(guess) in past_guesses_norm and tries < 5:\<close>
  \<^verbatim>\<open>    guess = (guesser_agent(obs) or "").strip() or "unknown"; tries += 1\<close>
  with the one observation \<open>ob\<close> built before it.
\<close>

function dedup_loop ::
  "'w collab \<Rightarrow> obs \<Rightarrow> string \<Rightarrow> nat \<Rightarrow> 'w game \<Rightarrow> py_error + (string \<times> 'w game)" where
  "dedup_loop c ob guess tries g =
     (if norm guess \<in> past_guesses_norm g \<and> tries < 5 then
        (case call_agent c ob g of
           (r, g') \<Rightarrow>
             (case next_guess r of
                Inl e \<Rightarrow> Inl e
              | Inr guess' \<Rightarrow> dedup_loop c ob guess' (tries + 1) g'))
      else Inr (guess, g))"
  by pat_completeness auto
termination
  by (relation "measure (\<lambda>(c, ob, guess, tries, g). 5 - tries)") auto

text \<open>The ASK turn of a round: lines 120 to 136.\<close>

definition ask_turn :: "'w collab \<Rightarrow> 'w game \<Rightarrow> py_error + 'w game" where
  "ask_turn c g =
     (case call_agent c (make_obs ASK g) g of
        (r, g1) \<Rightarrow>
          (case next_question r of
             Inl e \<Rightarrow> Inl e
           | Inr question \<Rightarrow>
               (let g2 = g1\<lparr>game_questions := game_questions g1 @ [question]\<rparr>
                in case call_validate_question c question g2 of
                     (raw_ans, g3) \<Rightarrow>
                       Inr (g3\<lparr>game_answers := game_answers g3 @ [normalize_answer raw_ans]\<rparr>))))"

text \<open>
  The GUESS turn of a round: lines 139 to 162. It returns whether the guess was correct, the
  guess, and the state.
\<close>

definition guess_turn :: "'w collab \<Rightarrow> 'w game \<Rightarrow> py_error + (bool \<times> string \<times> 'w game)" where
  "guess_turn c g =
     (let ob = make_obs GUESS g
      in case call_agent c ob g of
           (r, g1) \<Rightarrow>
             (case next_guess r of
                Inl e \<Rightarrow> Inl e
              | Inr guess0 \<Rightarrow>
                  (case dedup_loop c ob guess0 0 g1 of
                     Inl e \<Rightarrow> Inl e
                   | Inr (guess, g2) \<Rightarrow>
                       (let g3 = g2\<lparr>past_guesses_norm := insert (norm guess) (past_guesses_norm g2),
                                     game_guesses := game_guesses g2 @ [guess]\<rparr>
                        in case call_validate_guess c guess g3 of
                             (raw_guess_res, g4) \<Rightarrow>
                               Inr (parse_guess_result raw_guess_res, guess, g4)))))"

definition play_round :: "'w collab \<Rightarrow> 'w game \<Rightarrow> py_error + (bool \<times> string \<times> 'w game)" where
  "play_round c g =
     (case ask_turn c g of
        Inl e \<Rightarrow> Inl e
      | Inr g' \<Rightarrow> guess_turn c g')"

text \<open>
  \<open>for qnum in range(1, max_rounds + 1)\<close>, entered at \<open>qnum\<close>, with the return inside the
  loop and the code after it.
\<close>

function rounds_loop ::
  "'w collab \<Rightarrow> pyval \<Rightarrow> int \<Rightarrow> int \<Rightarrow> 'w game \<Rightarrow> py_error + (game_record \<times> 'w game)" where
  "rounds_loop c tgt max_rounds qnum g =
     (if qnum \<le> max_rounds then
        (case play_round c g of
           Inl e \<Rightarrow> Inl e
         | Inr (correct, guess, g') \<Rightarrow>
             if correct
             then Inr (\<lparr>won = True, final_guess = guess, rounds_used = qnum, target = tgt\<rparr>, g')
             else rounds_loop c tgt max_rounds (qnum + 1) g')
      else
        Inr (\<lparr>won = False,
              final_guess = (if game_guesses g \<noteq> [] then last (game_guesses g) else []),
              rounds_used = max_rounds, target = tgt\<rparr>, g))"
  by pat_completeness auto
termination
  by (relation "measure (\<lambda>(c, tgt, max_rounds, qnum, g). nat (max_rounds + 1 - qnum))") auto

definition new_game :: "'w \<Rightarrow> 'w game" where
  "new_game w =
     \<lparr>game_questions = [], game_answers = [], game_guesses = [], past_guesses_norm = {},
      world = w, calls = []\<rparr>"

definition run_single_game ::
  "'w collab \<Rightarrow> int \<Rightarrow> 'w \<Rightarrow> py_error + (game_record \<times> 'w game)" where
  "run_single_game c max_rounds w =
     (let w1 = ValidatorModel c w;
          tgt = maybe_get_target_word c w1
      in rounds_loop c tgt max_rounds 1 (new_game w1))"

section \<open>The evaluation driver\<close>

text \<open>
  What \<open>main\<close> prints, line by line, with the fields of each line kept apart: a game line
  (game number, won, rounds used, final guess, and the target when it is truthy), the rule of
  sixty \<open>=\<close>, and the summary line (wins, total, and the quotient the percentage is printed
  from). The quotient \<open>wins/total\<close> is a Python float; here it is the exact rational, and
  its rendering with one decimal is not modelled.
\<close>

datatype out_line =
    GameLine int bool int string "pyval option"
  | RuleLine
  | SummaryLine int int rat

record 'w run =
  wins :: int
  results :: "game_record list"
  printed :: "out_line list"
  run_world :: "'w"

definition game_line :: "int \<Rightarrow> game_record \<Rightarrow> out_line" where
  "game_line i r =
     GameLine i (won r) (rounds_used r) (final_guess r)
       (if truthy (target r) then Some (target r) else None)"

text \<open>
  \<open>for i in range(1, total + 1)\<close>, entered at \<open>i\<close>, where \<open>total_games\<close> is the
  source's \<open>total\<close>. An exception leaves the loop with what was printed before it.
\<close>

function games_loop ::
  "'w collab \<Rightarrow> int \<Rightarrow> int \<Rightarrow> int \<Rightarrow> 'w run \<Rightarrow> py_error option \<times> 'w run" where
  "games_loop c max_rounds total_games i st =
     (if i \<le> total_games then
        (case run_single_game c max_rounds (run_world st) of
           Inl e \<Rightarrow> (Some e, st)
         | Inr (r, g) \<Rightarrow>
             games_loop c max_rounds total_games (i + 1)
               (st\<lparr>wins := wins st + (if won r then 1 else 0),
                   printed := printed st @ [game_line i r],
                   results := results st @ [r],
                   run_world := world g\<rparr>))
      else (None, st))"
  by pat_completeness auto
termination
  by (relation "measure (\<lambda>(c, max_rounds, total_games, i, st). nat (total_games + 1 - i))") auto

text \<open>
  \<open>main\<close> after argument parsing: \<open>num\<close> and \<open>max_rounds\<close> are the parsed integers. The
  result is the exception that ended the run, if any, and the final state with all that was
  printed.
\<close>

definition main :: "'w collab \<Rightarrow> int \<Rightarrow> int \<Rightarrow> 'w \<Rightarrow> py_error option \<times> 'w run" where
  "main c num max_rounds w =
     (let total_games = num
      in case games_loop c max_rounds total_games 1
                \<lparr>wins = 0, results = [], printed = [], run_world = w\<rparr> of
           (Some e, st) \<Rightarrow> (Some e, st)
         | (None, st) \<Rightarrow>
             (let st1 = st\<lparr>printed := printed st @ [RuleLine]\<rparr>
              in if total_games = 0 then (Some ZeroDivisionError, st1)
                 else (None,
                       st1\<lparr>printed := printed st1 @
                              [SummaryLine (wins st) total_games
                                 (of_int (wins st) / of_int total_games),
                               RuleLine]\<rparr>)))"

section \<open>Well-behaved agents and the trace\<close>

text \<open>
  The agent's interface: a response is text, or it is falsy (no return value, an empty text).
  For such a response \<open>agent_text\<close> does not raise.
\<close>

definition responds_text :: "pyval \<Rightarrow> bool" where
  "responds_text r = (case r of PStr s \<Rightarrow> True | _ \<Rightarrow> \<not> truthy r)"

definition agent_ok :: "'w collab \<Rightarrow> bool" where
  "agent_ok c = (\<forall>ob w. responds_text (fst (guesser_agent c ob w)))"












text \<open>
  The records of \<open>n\<close> games run one after the other, each from the world the one before it
  left: what running the game runner \<open>n\<close> times sequentially means.
\<close>

fun game_sequence :: "'w collab \<Rightarrow> int \<Rightarrow> 'w \<Rightarrow> nat \<Rightarrow> game_record list" where
  "game_sequence c max_rounds w 0 = []"
| "game_sequence c max_rounds w (Suc n) =
     (case run_single_game c max_rounds w of
        Inl e \<Rightarrow> []
      | Inr (r, g) \<Rightarrow> r # game_sequence c max_rounds (world g) n)"

section \<open>Reference definitions\<close>








section \<open>Two sets of collaborators\<close>

text \<open>
  An oracle that answers yes to every question and accepts only "lion", with an agent that
  always guesses "Lion " (stateless, so the world is \<open>unit\<close>); and an oracle that wraps its
  answer in a dictionary and rejects every guess, with an agent that asks nothing and always
  guesses "zebra" (the world counts the agent's calls).
\<close>

definition lion_collab :: "unit collab" where
  "lion_collab =
     \<lparr>ValidatorModel = (\<lambda>w. w),
      vm_getattr = (\<lambda>w a. if a = ''target'' then Some (PStr ''lion'') else None),
      vm_call = (\<lambda>w m. None),
      guesser_agent =
        (\<lambda>ob w. (if turnType ob = ASK then PStr ''Is it an animal?'' else PStr ''Lion '', w)),
      validate_question = (\<lambda>q w. (PStr ''yes'', w)),
      validate_guess = (\<lambda>x w. (PBool (lower (strip x) = ''lion''), w))\<rparr>"


section \<open>Text\<close>




lemmas text_defs = lower_def casefold_def strip_def is_space_def lower_char_def

section \<open>The turns of a round\<close>

declare dedup_loop.simps [simp del] rounds_loop.simps [simp del]

lemma dedup_loop_stop:
  "\<not> (norm guess \<in> past_guesses_norm g \<and> tries < 5) \<Longrightarrow>
     dedup_loop c ob guess tries g = Inr (guess, g)"
  by (subst dedup_loop.simps) auto

lemma dedup_loop_retry:
  "norm guess \<in> past_guesses_norm g \<and> tries < 5 \<Longrightarrow>
     dedup_loop c ob guess tries g =
       (case call_agent c ob g of
          (r, g') \<Rightarrow>
            (case next_guess r of
               Inl e \<Rightarrow> Inl e
             | Inr guess' \<Rightarrow> dedup_loop c ob guess' (tries + 1) g'))"
  by (subst dedup_loop.simps) simp

lemma rounds_loop_stop:
  "\<not> qnum \<le> max_rounds \<Longrightarrow>
     rounds_loop c tgt max_rounds qnum g =
       Inr (\<lparr>won = False,
             final_guess = (if game_guesses g \<noteq> [] then last (game_guesses g) else []),
             rounds_used = max_rounds, target = tgt\<rparr>, g)"
  by (subst rounds_loop.simps) simp

lemma rounds_loop_step:
  "qnum \<le> max_rounds \<Longrightarrow>
     rounds_loop c tgt max_rounds qnum g =
       (case play_round c g of
          Inl e \<Rightarrow> Inl e
        | Inr (correct, guess, g') \<Rightarrow>
            if correct
            then Inr (\<lparr>won = True, final_guess = guess, rounds_used = qnum, target = tgt\<rparr>, g')
            else rounds_loop c tgt max_rounds (qnum + 1) g')"
  by (subst rounds_loop.simps) simp

lemma responds_text_agent_text: "responds_text r \<Longrightarrow> \<exists>t. agent_text r = Inr t"
  by (cases r) (auto simp: responds_text_def agent_text_def)

lemma responds_text_next_question: "responds_text r \<Longrightarrow> \<exists>q. next_question r = Inr q"
  using responds_text_agent_text [of r] by (auto simp: next_question_def)

lemma responds_text_next_guess: "responds_text r \<Longrightarrow> \<exists>x. next_guess r = Inr x"
  using responds_text_agent_text [of r] by (auto simp: next_guess_def)

lemma call_agent_eq:
  "call_agent c ob g =
     (fst (guesser_agent c ob (world g)),
      g\<lparr>world := snd (guesser_agent c ob (world g)),
        calls := calls g @ [AgentCall ob (fst (guesser_agent c ob (world g)))]\<rparr>)"
  by (simp add: call_agent_def split: prod.splits)

lemma call_validate_question_eq:
  "call_validate_question c q g =
     (fst (validate_question c q (world g)),
      g\<lparr>world := snd (validate_question c q (world g)),
        calls := calls g @ [QuestionCall q (fst (validate_question c q (world g)))]\<rparr>)"
  by (simp add: call_validate_question_def split: prod.splits)

lemma call_validate_guess_eq:
  "call_validate_guess c x g =
     (fst (validate_guess c x (world g)),
      g\<lparr>world := snd (validate_guess c x (world g)),
        calls := calls g @ [GuessCall x (fst (validate_guess c x (world g)))]\<rparr>)"
  by (simp add: call_validate_guess_def split: prod.splits)

lemma agent_ok_call:
  "agent_ok c \<Longrightarrow> responds_text (fst (call_agent c ob g))"
  by (simp add: agent_ok_def call_agent_eq)


lemma ask_turn_total:
  assumes "agent_ok c"
  shows "\<exists>g'. ask_turn c g = Inr g'"
proof -
  from assms have "responds_text (fst (guesser_agent c (make_obs ASK g) (world g)))"
    by (simp add: agent_ok_def)
  then obtain q where "next_question (fst (guesser_agent c (make_obs ASK g) (world g))) = Inr q"
    using responds_text_next_question by blast
  then show ?thesis
    by (simp add: ask_turn_def call_agent_eq call_validate_question_eq Let_def)
qed



lemma dedup_loop_total:
  assumes "agent_ok c"
  shows "\<exists>x g'. dedup_loop c ob guess tries g = Inr (x, g')"
  using assms
proof (induction c ob guess tries g rule: dedup_loop.induct)
  case (1 c ob guess tries g)
  note ok = \<open>agent_ok c\<close>
  show ?case
  proof (cases "norm guess \<in> past_guesses_norm g \<and> tries < 5")
    case False
    then show ?thesis
      by (simp add: dedup_loop_stop)
  next
    case True
    define r where "r = fst (guesser_agent c ob (world g))"
    define g1 where "g1 = snd (call_agent c ob g)"
    have ca: "call_agent c ob g = (r, g1)"
      by (simp add: r_def g1_def call_agent_eq)
    from ok have "responds_text r"
      by (simp add: agent_ok_def r_def)
    then obtain y where y: "next_guess r = Inr y"
      using responds_text_next_guess by blast
    from "1.IH" [OF True ca [symmetric] y ok] obtain x g' where
      "dedup_loop c ob y (tries + 1) g1 = Inr (x, g')"
      by blast
    with True ca y show ?thesis
      by (simp add: dedup_loop_retry)
  qed
qed


lemma guess_turn_total:
  assumes "agent_ok c"
  shows "\<exists>correct x g'. guess_turn c g = Inr (correct, x, g')"
proof -
  define ob where "ob = make_obs GUESS g"
  from assms have "responds_text (fst (guesser_agent c ob (world g)))"
    by (simp add: agent_ok_def)
  then obtain y0 where y0: "next_guess (fst (guesser_agent c ob (world g))) = Inr y0"
    using responds_text_next_guess by blast
  obtain x g2 where "dedup_loop c ob y0 0 (snd (call_agent c ob g)) = Inr (x, g2)"
    using dedup_loop_total [OF assms] by blast
  with y0 show ?thesis
    by (simp add: guess_turn_def Let_def ob_def [symmetric] call_agent_eq call_validate_guess_eq)
qed

lemma play_round_total:
  assumes "agent_ok c"
  shows "\<exists>correct x g'. play_round c g = Inr (correct, x, g')"
proof -
  obtain g1 where "ask_turn c g = Inr g1"
    using ask_turn_total [OF assms] by blast
  then show ?thesis
    using guess_turn_total [OF assms, of g1] by (simp add: play_round_def)
qed



lemma rounds_loop_total:
  assumes "agent_ok c"
  shows "\<exists>rec g'. rounds_loop c tgt max_rounds qnum g = Inr (rec, g')"
  using assms
proof (induction c tgt max_rounds qnum g rule: rounds_loop.induct)
  case (1 c tgt max_rounds qnum g)
  note ok = \<open>agent_ok c\<close>
  show ?case
  proof (cases "qnum \<le> max_rounds")
    case False
    then show ?thesis
      by (simp add: rounds_loop_stop)
  next
    case True
    obtain correct x g1 where pr: "play_round c g = Inr (correct, x, g1)"
      using play_round_total [OF ok] by blast
    show ?thesis
    proof (cases correct)
      case True
      with pr \<open>qnum \<le> max_rounds\<close> show ?thesis
        by (simp add: rounds_loop_step)
    next
      case False
      from "1.IH" [OF True pr refl refl False ok] obtain rec g' where
        "rounds_loop c tgt max_rounds (qnum + 1) g1 = Inr (rec, g')"
        by blast
      with pr True False show ?thesis
        by (simp add: rounds_loop_step)
    qed
  qed
qed

lemma run_single_game_total:
  assumes "agent_ok c"
  shows "\<exists>rec g. run_single_game c max_rounds w = Inr (rec, g)"
  using rounds_loop_total [OF assms] by (simp add: run_single_game_def Let_def)

section \<open>Sample games\<close>







section \<open>The outcome of a game\<close>





lemma new_game_fields:
  "game_guesses (new_game w) = []" "calls (new_game w) = []" "world (new_game w) = w"
  "game_questions (new_game w) = []" "game_answers (new_game w) = []"
  "past_guesses_norm (new_game w) = {}"
  by (simp_all add: new_game_def)







text \<open>
  C10: with \<open>max_rounds \<le> 0\<close> the round loop never runs: the trace of collaborator calls is
  empty (no agent call, no question validation, no guess validation) and the world is as the
  oracle's construction left it; the game is lost, the final guess is the empty string, and
  \<open>rounds_used\<close> is \<open>max_rounds\<close>, which is below 1.
\<close>

theorem run_single_game_no_rounds:
  assumes "max_rounds \<le> 0"
  shows "\<exists>rec g. run_single_game c max_rounds w = Inr (rec, g) \<and>
           calls g = [] \<and> world g = ValidatorModel c w \<and>
           \<not> won rec \<and> final_guess rec = [] \<and>
           rounds_used rec = max_rounds \<and> rounds_used rec < 1"
  using assms by (simp add: run_single_game_def Let_def rounds_loop_stop new_game_fields)

theorem run_single_game_no_rounds_witness:
  "(0::int) \<le> 0 \<and>
   (\<exists>rec g. run_single_game lion_collab 0 () = Inr (rec, g) \<and>
      calls g = [] \<and> world g = ValidatorModel lion_collab () \<and>
      \<not> won rec \<and> final_guess rec = [] \<and> rounds_used rec = 0 \<and> rounds_used rec < 1)"
proof -
  have le: "(0::int) \<le> 0"
    by simp
  from run_single_game_no_rounds [OF le, of lion_collab "()"] show ?thesis
    by simp
qed


section \<open>The driver's runs\<close>

declare games_loop.simps [simp del]

lemma games_loop_stop:
  "\<not> i \<le> total_games \<Longrightarrow> games_loop c max_rounds total_games i st = (None, st)"
  by (subst games_loop.simps) simp

lemma games_loop_step:
  "i \<le> total_games \<Longrightarrow> run_single_game c max_rounds (run_world st) = Inr (r, g) \<Longrightarrow>
     games_loop c max_rounds total_games i st =
       games_loop c max_rounds total_games (i + 1)
         (st\<lparr>wins := wins st + (if won r then 1 else 0),
             printed := printed st @ [game_line i r],
             results := results st @ [r],
             run_world := world g\<rparr>)"
  by (subst games_loop.simps) simp

lemma game_sequence_length:
  "agent_ok c \<Longrightarrow> length (game_sequence c max_rounds w n) = n"
proof (induction n arbitrary: w)
  case 0
  show ?case by simp
next
  case (Suc n)
  from run_single_game_total [OF Suc.prems] obtain r g where
    "run_single_game c max_rounds w = Inr (r, g)"
    by blast
  with Suc show ?case by simp
qed

lemma games_loop_run:
  assumes "agent_ok c"
  shows "\<exists>st'. games_loop c max_rounds total_games i st = (None, st') \<and>
           results st' =
             results st @ game_sequence c max_rounds (run_world st) (nat (total_games + 1 - i)) \<and>
           wins st' =
             wins st + int (length (filter won
               (game_sequence c max_rounds (run_world st) (nat (total_games + 1 - i))))) \<and>
           printed st' =
             printed st @ map2 game_line [i..total_games]
               (game_sequence c max_rounds (run_world st) (nat (total_games + 1 - i)))"
  using assms
proof (induction c max_rounds total_games i st rule: games_loop.induct)
  case (1 c max_rounds total_games i st)
  note ok = \<open>agent_ok c\<close>
  show ?case
  proof (cases "i \<le> total_games")
    case False
    then have "nat (total_games + 1 - i) = 0" "[i..total_games] = []"
      by simp_all
    with False show ?thesis
      by (simp add: games_loop_stop)
  next
    case True
    from run_single_game_total [OF ok] obtain r g where
      rsg: "run_single_game c max_rounds (run_world st) = Inr (r, g)"
      by blast
    define st1 where "st1 = st\<lparr>wins := wins st + (if won r then 1 else 0),
             printed := printed st @ [game_line i r],
             results := results st @ [r],
             run_world := world g\<rparr>"
    have step: "games_loop c max_rounds total_games i st =
                  games_loop c max_rounds total_games (i + 1) st1"
      unfolding st1_def by (rule games_loop_step [OF True rsg])
    have n: "nat (total_games + 1 - i) = Suc (nat (total_games + 1 - (i + 1)))"
      using True by simp
    have seq: "game_sequence c max_rounds (run_world st) (nat (total_games + 1 - i)) =
                 r # game_sequence c max_rounds (world g) (nat (total_games + 1 - (i + 1)))"
      unfolding n using rsg by simp
    have up: "[i..total_games] = i # [i + 1..total_games]"
      using True by (rule upto_rec1)
    from "1.IH" [OF True rsg refl ok, folded st1_def] obtain st' where st':
      "games_loop c max_rounds total_games (i + 1) st1 = (None, st')"
      "results st' =
         results st1 @ game_sequence c max_rounds (run_world st1) (nat (total_games + 1 - (i + 1)))"
      "wins st' =
         wins st1 + int (length (filter won
           (game_sequence c max_rounds (run_world st1) (nat (total_games + 1 - (i + 1))))))"
      "printed st' =
         printed st1 @ map2 game_line [i + 1..total_games]
           (game_sequence c max_rounds (run_world st1) (nat (total_games + 1 - (i + 1))))"
      by blast
    have st1: "results st1 = results st @ [r]" "run_world st1 = world g"
      "wins st1 = wins st + (if won r then 1 else 0)"
      "printed st1 = printed st @ [game_line i r]"
      by (simp_all add: st1_def)
    show ?thesis
    proof (intro exI [of _ st'] conjI)
      show "games_loop c max_rounds total_games i st = (None, st')"
        using step st'(1) by simp
      show "results st' =
             results st @ game_sequence c max_rounds (run_world st) (nat (total_games + 1 - i))"
        unfolding seq using st'(2) st1 by simp
      show "wins st' =
             wins st + int (length (filter won
               (game_sequence c max_rounds (run_world st) (nat (total_games + 1 - i)))))"
        unfolding seq using st'(3) st1 by simp
      show "printed st' =
             printed st @ map2 game_line [i..total_games]
               (game_sequence c max_rounds (run_world st) (nat (total_games + 1 - i)))"
        unfolding seq up using st'(4) st1 by simp
    qed
  qed
qed

lemma main_run:
  assumes "agent_ok c" and "num \<noteq> 0"
  shows "\<exists>st. main c num max_rounds w = (None, st) \<and>
           results st = game_sequence c max_rounds w (nat num) \<and>
           wins st = int (length (filter won (results st))) \<and>
           printed st =
             map2 game_line [1..num] (results st) @
             [RuleLine, SummaryLine (wins st) num (of_int (wins st) / of_int num), RuleLine]"
proof -
  define st0 :: "'a run" where "st0 = \<lparr>wins = 0, results = [], printed = [], run_world = w\<rparr>"
  from games_loop_run [OF assms(1), of max_rounds num 1 st0] obtain st' where st':
    "games_loop c max_rounds num 1 st0 = (None, st')"
    "results st' = results st0 @ game_sequence c max_rounds (run_world st0) (nat (num + 1 - 1))"
    "wins st' =
       wins st0 + int (length (filter won
         (game_sequence c max_rounds (run_world st0) (nat (num + 1 - 1)))))"
    "printed st' =
       printed st0 @ map2 game_line [1..num]
         (game_sequence c max_rounds (run_world st0) (nat (num + 1 - 1)))"
    by blast
  define st where "st = st'\<lparr>printed := printed st' @
      [RuleLine, SummaryLine (wins st') num (of_int (wins st') / of_int num), RuleLine]\<rparr>"
  have m: "main c num max_rounds w = (None, st)"
    using st'(1) assms(2) by (simp add: main_def Let_def st0_def [symmetric] st_def)
  have r: "results st = game_sequence c max_rounds w (nat num)"
    using st'(2) by (simp add: st_def st0_def)
  have wn: "wins st = int (length (filter won (results st)))"
    using st'(3) r by (simp add: st_def st0_def)
  have p: "printed st =
             map2 game_line [1..num] (results st) @
             [RuleLine, SummaryLine (wins st) num (of_int (wins st) / of_int num), RuleLine]"
    using st'(4) r by (simp add: st_def st0_def)
  from m r wn p show ?thesis
    by blast
qed

lemma run_single_game_stop:
  "max_rounds \<le> 0 \<Longrightarrow>
     run_single_game c max_rounds w =
       Inr (\<lparr>won = False, final_guess = [], rounds_used = max_rounds,
             target = maybe_get_target_word c (ValidatorModel c w)\<rparr>,
            new_game (ValidatorModel c w))"
  by (simp add: run_single_game_def Let_def rounds_loop_stop new_game_fields)

lemma game_sequence_no_rounds:
  "max_rounds \<le> 0 \<Longrightarrow> r \<in> set (game_sequence c max_rounds w n) \<Longrightarrow>
     \<not> won r \<and> final_guess r = [] \<and> rounds_used r = max_rounds"
  by (induction n arbitrary: w) (auto simp: run_single_game_stop)

lemma filter_won_no_rounds:
  "max_rounds \<le> 0 \<Longrightarrow> filter won (game_sequence c max_rounds w n) = []"
  by (auto simp: filter_empty_conv dest: game_sequence_no_rounds)



text \<open>
  C2, as the code has it: \<open>main\<close> validates neither \<open>N\<close> nor \<open>max_rounds\<close>. Whenever
  \<open>N \<ge> 1\<close> the run completes without an exception whatever \<open>max_rounds\<close> is: \<open>N\<close> games
  are run and the summary is printed, its division wins/total being by \<open>N \<ge> 1\<close>; with
  \<open>max_rounds \<le> 0\<close> every one of these games is a loss in \<open>max_rounds\<close> rounds with an empty
  final guess.
\<close>

theorem main_accepts_any_max_rounds:
  assumes "1 \<le> num" and "agent_ok c"
  shows "\<exists>st. main c num max_rounds w = (None, st) \<and>
           int (length (results st)) = num \<and>
           last (butlast (printed st)) = SummaryLine (wins st) num (of_int (wins st) / of_int num) \<and>
           (max_rounds \<le> 0 \<longrightarrow>
              wins st = 0 \<and>
              (\<forall>r \<in> set (results st).
                 \<not> won r \<and> final_guess r = [] \<and> rounds_used r = max_rounds))"
proof -
  from assms(1) have "num \<noteq> 0"
    by simp
  from main_run [OF assms(2) this] obtain st where st:
    "main c num max_rounds w = (None, st)"
    "results st = game_sequence c max_rounds w (nat num)"
    "wins st = int (length (filter won (results st)))"
    "printed st =
       map2 game_line [1..num] (results st) @
       [RuleLine, SummaryLine (wins st) num (of_int (wins st) / of_int num), RuleLine]"
    by blast
  have len: "int (length (results st)) = num"
    using st(2) assms by (simp add: game_sequence_length)
  have summ: "last (butlast (printed st)) =
                SummaryLine (wins st) num (of_int (wins st) / of_int num)"
    by (simp add: st(4) butlast_append)
  have none: "max_rounds \<le> 0 \<longrightarrow>
              wins st = 0 \<and>
              (\<forall>r \<in> set (results st).
                 \<not> won r \<and> final_guess r = [] \<and> rounds_used r = max_rounds)"
    using st(2) st(3) game_sequence_no_rounds [of max_rounds _ c w "nat num"]
    by (auto simp: filter_won_no_rounds)
  from st(1) len summ none show ?thesis
    by blast
qed

theorem main_accepts_any_max_rounds_witness:
  "(1::int) \<le> 1 \<and> agent_ok lion_collab \<and>
   (\<exists>st. main lion_collab 1 0 () = (None, st) \<and>
      int (length (results st)) = 1 \<and>
      last (butlast (printed st)) = SummaryLine (wins st) 1 (of_int (wins st) / of_int 1) \<and>
      wins st = 0 \<and> list_all (\<lambda>r. \<not> won r \<and> final_guess r = [] \<and> rounds_used r = 0) (results st))"
proof -
  have ok: "agent_ok lion_collab"
    by (simp add: agent_ok_def lion_collab_def responds_text_def)
  have le: "(1::int) \<le> 1"
    by simp
  from main_accepts_any_max_rounds [OF le ok, of 0 "()"] ok le show ?thesis
    by (auto simp: list_all_iff)
qed

text \<open>
  C2, as stated, fails: with \<open>N = 1\<close> and \<open>max_rounds = 0\<close> nothing is rejected, the game is
  run and reported as a loss in 0 rounds, and the summary is printed; with \<open>N = 0\<close> nothing
  is rejected either, the rule is printed, and the summary's division raises.
\<close>

theorem main_runs_unvalidated_configuration:
  "main lion_collab 1 0 () =
     (None,
      \<lparr>wins = 0,
       results = [\<lparr>won = False, final_guess = [], rounds_used = 0, target = PStr ''lion''\<rparr>],
       printed = [GameLine 1 False 0 [] (Some (PStr ''lion'')), RuleLine, SummaryLine 0 1 0,
                  RuleLine],
       run_world = ()\<rparr>) \<and>
   main lion_collab 0 3 () =
     (Some ZeroDivisionError, \<lparr>wins = 0, results = [], printed = [RuleLine], run_world = ()\<rparr>)"
  by (simp add: main_def Let_def games_loop.simps run_single_game_stop new_game_fields
        maybe_get_target_word_def lion_collab_def game_line_def)

section \<open>Invariants of a game\<close>



section \<open>Fallbacks for a silent agent\<close>









section \<open>The deduplicator\<close>











section \<open>The normalisers\<close>





lemma normalize_answer_range: "normalize_answer r \<in> {''yes'', ''no'', ''maybe''}"
proof (induction r rule: normalize_answer.induct)
  case (3 d)
  then show ?case by (cases "first_present d answer_keys") simp_all
qed (simp_all add: Let_def)

lemma normalize_answer_canonical:
  "normalize_answer (PStr ''yes'') = ''yes''"
  "normalize_answer (PStr ''no'') = ''no''"
  "normalize_answer (PStr ''maybe'') = ''maybe''"
  by (simp_all add: text_defs)



text \<open>
  C9: \<open>normalize_answer\<close> is idempotent: each canonical string is a fixed point, so
  normalising the result of a normalisation changes nothing.
\<close>

theorem normalize_answer_idempotent:
  "normalize_answer (PStr ''yes'') = ''yes'' \<and>
   normalize_answer (PStr ''no'') = ''no'' \<and>
   normalize_answer (PStr ''maybe'') = ''maybe'' \<and>
   normalize_answer (PStr (normalize_answer r)) = normalize_answer r"
  using normalize_answer_range [of r] normalize_answer_canonical by auto

text \<open>
  C3: a keyed mapping whose recognised key holds a negative string should yield false. The
  code coerces the value with \<open>bool\<close>, and a non-empty string is truthy: the mappings
  \<open>{"correct": "no"}\<close> and \<open>{"result": "false"}\<close> yield true, although the same strings on
  their own yield false.
\<close>

theorem parse_guess_result_negative_text_in_dict:
  "parse_guess_result (PDict [(PStr ''correct'', PStr ''no'')]) = True \<and>
   parse_guess_result (PDict [(PStr ''result'', PStr ''false'')]) = True \<and>
   parse_guess_result (PStr ''no'') = False \<and>
   parse_guess_result (PStr ''false'') = False"
  by (simp add: guess_keys_def text_defs)

end
